theory Spec2Isabelle
  imports Complex_Main
begin

section \<open>The distant directional sensor of src/sensors/distant.cpp\<close>

text \<open>
  The plugin is written against the renderer's core library (vectors, transforms,
  properties, shapes, warping), which is not part of src/. Arithmetic on vectors, the
  application of a transform to a direction and \<open>cos_theta\<close> are written out below;
  the other library routines (spectral sampling, the disk warp, the normalisation of a
  vector, the look-at construction, the orthonormal basis, the bounding sphere of a
  box, the masking macros, the ray epsilon) are fields of the record \<open>Core\<close> and stay
  arbitrary in every general theorem.

  Numbers: a finite floating-point value is a \<^typ>\<open>real\<close> and the arithmetic on finite values
  is exact (no rounding, no overflow). The one operation of the plugin that leaves the
  finite values on finite arguments is the division, so a quotient is an \<open>ieee\<close> value:
  finite, infinite (the sign is not tracked: the reals have no signed zero) or not a
  number. The examples run with a normalisation that rounds as single precision does,
  since the rounding decides what the scaling of a direction does to a sensor.
\<close>

subsection \<open>Numbers and vectors\<close>

datatype ieee = Finite real | Infinite | NaN

text \<open>IEEE 754 division of two finite values.\<close>

definition fdiv :: "real \<Rightarrow> real \<Rightarrow> ieee" where
  "fdiv a b = (if b = 0 then (if a = 0 then NaN else Infinite) else Finite (a / b))"

type_synonym Point2f = "real \<times> real"
type_synonym Vector3f = "real \<times> real \<times> real"
type_synonym Point3f = "real \<times> real \<times> real"
type_synonym Normal3f = "real \<times> real \<times> real"

text \<open>A spectrum is one value for each wavelength channel of the variant.\<close>

type_synonym Wavelength = "real list"
type_synonym Spectrum = "ieee list"

fun vadd :: "Vector3f \<Rightarrow> Vector3f \<Rightarrow> Vector3f" where
  "vadd (a1, a2, a3) (b1, b2, b3) = (a1 + b1, a2 + b2, a3 + b3)"

fun vsub :: "Vector3f \<Rightarrow> Vector3f \<Rightarrow> Vector3f" where
  "vsub (a1, a2, a3) (b1, b2, b3) = (a1 - b1, a2 - b2, a3 - b3)"

text \<open>\<open>v * s\<close> for a vector and a scalar, and the unary minus.\<close>

fun vscale :: "Vector3f \<Rightarrow> real \<Rightarrow> Vector3f" where
  "vscale (a1, a2, a3) s = (a1 * s, a2 * s, a3 * s)"

fun vneg :: "Vector3f \<Rightarrow> Vector3f" where
  "vneg (a1, a2, a3) = (- a1, - a2, - a3)"

fun dot :: "Vector3f \<Rightarrow> Vector3f \<Rightarrow> real" where
  "dot (a1, a2, a3) (b1, b2, b3) = a1 * b1 + a2 * b2 + a3 * b3"

definition sqr :: "real \<Rightarrow> real" where
  "sqr x = x * x"

definition norm3 :: "Vector3f \<Rightarrow> real" where
  "norm3 v = sqrt (dot v v)"

text \<open>
  Modelled from the spec: \<open>Frame3f::cos_theta\<close> (core/frame.h) is not under src/. It is
  the cosine of a unit vector against the up axis \<open>(0, 0, 1)\<close> of the coordinates
  the vector is given in, that is, its third coordinate.
\<close>

fun cos_theta :: "Vector3f \<Rightarrow> real" where
  "cos_theta (x, y, z) = z"

subsection \<open>Transforms\<close>

text \<open>
  Modelled from the spec: \<open>Transform4f::transform_affine\<close> (core/transform.h) is not
  under src/. A transform is its 4x4 matrix, held as four columns; applied to a
  direction it multiplies by the upper left 3x3 block: the translation column does not
  act on directions.
\<close>

type_synonym Vector4f = "real \<times> real \<times> real \<times> real"
type_synonym Transform4f = "Vector4f \<times> Vector4f \<times> Vector4f \<times> Vector4f"

fun transform_affine :: "Transform4f \<Rightarrow> Vector3f \<Rightarrow> Vector3f" where
  "transform_affine ((a1, a2, a3, a4), (b1, b2, b3, b4), (c1, c2, c3, c4), t) (x, y, z) =
     (a1 * x + b1 * y + c1 * z, a2 * x + b2 * y + c2 * z, a3 * x + b3 * y + c3 * z)"

text \<open>An animated transform gives a transform for each time; its lookup ignores the mask.\<close>

type_synonym AnimatedTransform = "real \<Rightarrow> Transform4f"

definition eval_transform :: "AnimatedTransform \<Rightarrow> real \<Rightarrow> bool \<Rightarrow> Transform4f" where
  "eval_transform a time active = a time"

text \<open>\<open>new AnimatedTransform(T)\<close>: the same transform at every time.\<close>

definition AnimatedTransform_of :: "Transform4f \<Rightarrow> AnimatedTransform" where
  "AnimatedTransform_of T = (\<lambda>time. T)"

subsection \<open>Rays, shapes, bounds, film\<close>

text \<open>
  Modelled from the spec: the types of the core library that the plugin works with are
  not declared under src/. Each is a record of the fields and routines the plugin
  touches: a ray, the sample of a position on a shape (position, normal, density), the
  record of an intersection (hit point, validity), a shape (position sampling and
  intersection), a bounding sphere and box, the scene, the film (size, filter radius).
\<close>

record Ray3f =
  ray_o :: Point3f
  ray_d :: Vector3f
  ray_time :: real
  ray_wavelengths :: Wavelength

record RayDifferential3f = Ray3f +
  has_differentials :: bool

record PositionSample3f =
  ps_p :: Point3f
  ps_n :: Normal3f
  ps_pdf :: real

text \<open>
  A surface interaction carries the distance \<open>t\<close> along the ray; \<open>None\<close> stands for
  the infinite distance of a miss, and \<open>is_valid\<close> is \<open>t \<noteq> Infinity\<close>.
\<close>

record SurfaceInteraction3f =
  si_p :: Point3f
  si_n :: Normal3f
  si_t :: "real option"

definition is_valid :: "SurfaceInteraction3f \<Rightarrow> bool" where
  "is_valid si = (si_t si \<noteq> None)"

text \<open>\<open>SurfaceInteraction3f si(ps, wavelengths)\<close>: position and normal of the sample, \<open>t = 0\<close>.\<close>

definition SurfaceInteraction3f_of :: "PositionSample3f \<Rightarrow> SurfaceInteraction3f" where
  "SurfaceInteraction3f_of ps = \<lparr>si_p = ps_p ps, si_n = ps_n ps, si_t = Some 0\<rparr>"

datatype HitComputeFlags = Minimal | AllNonDifferentiable

text \<open>A shape is the two routines the sensor calls on it.\<close>

record Shape =
  sample_position :: "real \<Rightarrow> Point2f \<Rightarrow> bool \<Rightarrow> PositionSample3f"
  ray_intersect :: "Ray3f \<Rightarrow> HitComputeFlags \<Rightarrow> bool \<Rightarrow> SurfaceInteraction3f"

record BoundingSphere3f =
  center :: Point3f
  radius :: real

record BoundingBox3f =
  bbox_min :: Point3f
  bbox_max :: Point3f

record Scene =
  scene_bbox :: BoundingBox3f

record Film =
  film_size :: "int \<times> int"
  film_filter_radius :: real

subsection \<open>The core library's routines taken as parameters\<close>

text \<open>
  \<open>normalize3\<close> is the library's \<open>normalize\<close> on three components; its result is
  \<open>None\<close> when a component of the normalised vector is infinite or not a number.
\<close>

record Core =
  sample_wavelength :: "real \<Rightarrow> Wavelength \<times> real list"
  square_to_uniform_disk_concentric :: "Point2f \<Rightarrow> Point2f"
  normalize3 :: "Vector3f \<Rightarrow> Vector3f option"
  coordinate_system :: "Vector3f \<Rightarrow> Vector3f \<times> Vector3f"
  look_at :: "Point3f \<Rightarrow> Point3f \<Rightarrow> Vector3f \<Rightarrow> Transform4f"
  bounding_sphere :: "BoundingBox3f \<Rightarrow> BoundingSphere3f"
  RayEpsilon :: real
  MTS_MASK_ARGUMENT :: "bool \<Rightarrow> bool"
  MTS_MASKED_FUNCTION :: "bool \<Rightarrow> bool"

subsection \<open>Properties\<close>

text \<open>
  Modelled from the spec: the property store (core/properties.h) is not under src/. It
  maps a key to a typed value; a getter returns the value of its type or throws.
\<close>

datatype Object = Shape_object Shape | Other_object

datatype prop_value =
  Array3f_value Vector3f
| Transform_value AnimatedTransform
| Object_value Object
| Other_value

type_synonym Properties = "string \<Rightarrow> prop_value option"

text \<open>
  \<open>Throw msg\<close> is the exception of the plugin's own \<open>Throw(...)\<close>; \<open>Property_error key\<close>
  is the one a getter of the property store raises for a key that is missing or holds
  another type.
\<close>

datatype error = Throw string | Property_error string

definition has_property :: "Properties \<Rightarrow> string \<Rightarrow> bool" where
  "has_property props name = (props name \<noteq> None)"

text \<open>Points and vectors are both stored as three-component arrays.\<close>

definition array3f :: "Properties \<Rightarrow> string \<Rightarrow> error + Vector3f" where
  "array3f props name =
     (case props name of Some (Array3f_value v) \<Rightarrow> Inr v | _ \<Rightarrow> Inl (Property_error name))"

definition point3f :: "Properties \<Rightarrow> string \<Rightarrow> error + Point3f" where
  "point3f props name = array3f props name"

definition vector3f :: "Properties \<Rightarrow> string \<Rightarrow> error + Vector3f" where
  "vector3f props name = array3f props name"

definition object :: "Properties \<Rightarrow> string \<Rightarrow> error + Object" where
  "object props name =
     (case props name of Some (Object_value obj) \<Rightarrow> Inr obj | _ \<Rightarrow> Inl (Property_error name))"

text \<open>\<open>dynamic_cast<Shape *>\<close>: the shape, or the null pointer.\<close>

fun dynamic_cast_Shape :: "Object \<Rightarrow> Shape option" where
  "dynamic_cast_Shape (Shape_object s) = Some s"
| "dynamic_cast_Shape Other_object = None"

subsection \<open>The resolver: class DistantSensor\<close>

datatype RayTargetType = Target_Shape | Target_Point | Target_None
datatype RayOriginType = Origin_Shape | Origin_BoundingSphere

record DistantSensor =
  m_props :: Properties
  m_ray_target_type :: RayTargetType
  m_ray_origin_type :: RayOriginType

text \<open>
  The constructor tries the point getter and takes a failure for a shape. Marking the
  four keys as queried changes no value and is left out.
\<close>

definition DistantSensor_ctor :: "Properties \<Rightarrow> DistantSensor" where
  "DistantSensor_ctor props =
     \<lparr>m_props = props,
      m_ray_target_type =
        (if has_property props ''ray_target''
         then (case point3f props ''ray_target'' of
                 Inr p \<Rightarrow> Target_Point
               | Inl e \<Rightarrow> Target_Shape)
         else Target_None),
      m_ray_origin_type =
        (if has_property props ''ray_origin'' then Origin_Shape else Origin_BoundingSphere)\<rparr>"

subsection \<open>The engine: class DistantSensorImpl\<close>

text \<open>
  The members of the class. The two template parameters \<open>TargetType\<close> and
  \<open>OriginType\<close> are arguments of every function below. A \<open>ref<Shape>\<close> is a
  \<open>Shape option\<close>, \<open>None\<close> the null reference.
\<close>

record DistantSensorImpl =
  m_world_transform :: AnimatedTransform
  m_film :: Film
  m_bsphere :: BoundingSphere3f
  m_ray_target_shape :: "Shape option"
  m_ray_target_point :: Point3f
  m_ray_origin_shape :: "Shape option"

text \<open>
  What a constructor call comes to: an exception, an object, or (outside the real
  numbers) an object whose transform has components that are not finite, which
  happens when the normalised direction has such components; the model does not follow
  the constructor further then.
\<close>

datatype 'a outcome = Thrown error | Not_a_number | Constructed 'a

fun and_then :: "'a outcome \<Rightarrow> ('a \<Rightarrow> 'b outcome) \<Rightarrow> 'b outcome" where
  "and_then (Thrown e) f = Thrown e"
| "and_then Not_a_number f = Not_a_number"
| "and_then (Constructed x) f = f x"

text \<open>
  The message of line 207, its two literals joined as the compiler joins them;
  \<open>CHR 0x27\<close> is the apostrophe.
\<close>

definition only_one_message :: string where
  "only_one_message =
     ''Only one of the parameters '' @ [CHR 0x27] @ ''direction'' @ [CHR 0x27] @ '' and '' @
     [CHR 0x27] @ ''to_world'' @ [CHR 0x27] @ ''can be specified at the same time!'' @ [CHR 0x27]"

text \<open>Lines 205 to 217: the transform, possibly from the direction parameter.\<close>

definition ctor_transform :: "Core \<Rightarrow> Properties \<Rightarrow> DistantSensorImpl \<Rightarrow> DistantSensorImpl outcome" where
  "ctor_transform core props self =
     (if has_property props ''direction'' then
        (if has_property props ''to_world'' then
           Thrown (Throw only_one_message)
         else
           (case vector3f props ''direction'' of
              Inl e \<Rightarrow> Thrown e
            | Inr v \<Rightarrow>
                (case normalize3 core v of
                   None \<Rightarrow> Not_a_number
                 | Some direction \<Rightarrow>
                     (let up = fst (coordinate_system core direction)
                      in Constructed (self\<lparr>m_world_transform :=
                           AnimatedTransform_of (look_at core (0, 0, 0) direction up)\<rparr>)))))
      else Constructed self)"

text \<open>Lines 219 to 231: the ray target.\<close>

definition ctor_target :: "RayTargetType \<Rightarrow> Properties \<Rightarrow> DistantSensorImpl \<Rightarrow> DistantSensorImpl outcome" where
  "ctor_target TargetType props self =
     (case TargetType of
        Target_Point \<Rightarrow>
          (case point3f props ''ray_target'' of
             Inl e \<Rightarrow> Thrown e
           | Inr p \<Rightarrow> Constructed (self\<lparr>m_ray_target_point := p\<rparr>))
      | Target_Shape \<Rightarrow>
          (case object props ''ray_target'' of
             Inl e \<Rightarrow> Thrown e
           | Inr obj \<Rightarrow>
               (case dynamic_cast_Shape obj of
                  None \<Rightarrow> Thrown (Throw (''Invalid parameter ray_target, must be a Point3f or a '' @
                                         ''Shape.''))
                | Some s \<Rightarrow> Constructed (self\<lparr>m_ray_target_shape := Some s\<rparr>)))
      | Target_None \<Rightarrow> Constructed self)"

text \<open>Lines 233 to 242: the ray origin.\<close>

definition ctor_origin :: "RayOriginType \<Rightarrow> Properties \<Rightarrow> DistantSensorImpl \<Rightarrow> DistantSensorImpl outcome" where
  "ctor_origin OriginType props self =
     (case OriginType of
        Origin_Shape \<Rightarrow>
          (case object props ''ray_origin'' of
             Inl e \<Rightarrow> Thrown e
           | Inr obj \<Rightarrow>
               (case dynamic_cast_Shape obj of
                  None \<Rightarrow> Thrown (Throw ''Invalid parameter ray_origin, must be a Shape.'')
                | Some s \<Rightarrow> Constructed (self\<lparr>m_ray_origin_shape := Some s\<rparr>)))
      | Origin_BoundingSphere \<Rightarrow> Constructed self)"

text \<open>Lines 244 to 251: the film size. The warning about the filter radius changes nothing.\<close>

definition ctor_film :: "DistantSensorImpl \<Rightarrow> DistantSensorImpl outcome" where
  "ctor_film self =
     (if film_size (m_film self) \<noteq> (1, 1)
      then Thrown (Throw ''This sensor only supports films of size 1x1 Pixels!'')
      else Constructed self)"

text \<open>
  The constructor body. \<open>self\<close> is the object as the base class constructor
  \<open>Sensor(props)\<close> (not under src/) and the default initialisation of the members
  leave it: the world transform read from \<open>to_world\<close>, the film, the other members
  unset.
\<close>

definition DistantSensorImpl_ctor ::
  "Core \<Rightarrow> RayTargetType \<Rightarrow> RayOriginType \<Rightarrow> Properties \<Rightarrow> DistantSensorImpl \<Rightarrow> DistantSensorImpl outcome" where
  "DistantSensorImpl_ctor core TargetType OriginType props self =
     and_then (ctor_transform core props self) (\<lambda>s1.
     and_then (ctor_target TargetType props s1) (\<lambda>s2.
     and_then (ctor_origin OriginType props s2) ctor_film))"

text \<open>
  \<open>new Impl<TargetType, OriginType>(props)\<close>: the constructed object, with the
  specialisation it belongs to.
\<close>

definition new_Impl ::
  "Core \<Rightarrow> RayTargetType \<Rightarrow> RayOriginType \<Rightarrow> Properties \<Rightarrow> DistantSensorImpl \<Rightarrow>
     (RayTargetType \<times> RayOriginType \<times> DistantSensorImpl) outcome" where
  "new_Impl core TargetType OriginType props self =
     and_then (DistantSensorImpl_ctor core TargetType OriginType props self)
       (\<lambda>s. Constructed (TargetType, OriginType, s))"

text \<open>
  Lines 127 to 185: \<open>expand\<close> builds the one specialised engine for the resolved pair
  of strategies. The \<open>default:\<close> branches of the source cannot be reached from a value
  of the enumerations.
\<close>

definition expand ::
  "Core \<Rightarrow> DistantSensor \<Rightarrow> DistantSensorImpl \<Rightarrow> (RayTargetType \<times> RayOriginType \<times> DistantSensorImpl) outcome" where
  "expand core sensor self =
     (case m_ray_target_type sensor of
        Target_Shape \<Rightarrow>
          (case m_ray_origin_type sensor of
             Origin_BoundingSphere \<Rightarrow>
               new_Impl core Target_Shape Origin_BoundingSphere (m_props sensor) self
           | Origin_Shape \<Rightarrow>
               new_Impl core Target_Shape Origin_Shape (m_props sensor) self)
      | Target_Point \<Rightarrow>
          (case m_ray_origin_type sensor of
             Origin_BoundingSphere \<Rightarrow>
               new_Impl core Target_Point Origin_BoundingSphere (m_props sensor) self
           | Origin_Shape \<Rightarrow>
               new_Impl core Target_Point Origin_Shape (m_props sensor) self)
      | Target_None \<Rightarrow>
          (case m_ray_origin_type sensor of
             Origin_BoundingSphere \<Rightarrow>
               new_Impl core Target_None Origin_BoundingSphere (m_props sensor) self
           | Origin_Shape \<Rightarrow>
               new_Impl core Target_None Origin_Shape (m_props sensor) self))"

text \<open>Lines 254 to 259.\<close>

definition set_scene :: "Core \<Rightarrow> DistantSensorImpl \<Rightarrow> Scene \<Rightarrow> DistantSensorImpl" where
  "set_scene core self scene =
     (let b = bounding_sphere core (scene_bbox scene)
      in self\<lparr>m_bsphere :=
           b\<lparr>radius := max (RayEpsilon core) (radius b * (1 + RayEpsilon core))\<rparr>\<rparr>)"

subsection \<open>Ray sampling\<close>

text \<open>\<open>spectrum && mask\<close>: the spectrum where the mask holds, zero elsewhere.\<close>

definition mask_spectrum :: "Spectrum \<Rightarrow> bool \<Rightarrow> Spectrum" where
  "mask_spectrum w active = map (\<lambda>x. if active then x else Finite 0) w"

text \<open>
  Step 3.1 (lines 281 to 308): the target point and the weight before masking. The
  result is \<open>None\<close> when the code would dereference a null shape reference.
\<close>

definition sample_target ::
  "Core \<Rightarrow> RayTargetType \<Rightarrow> DistantSensorImpl \<Rightarrow> real \<Rightarrow> Point2f \<Rightarrow> bool \<Rightarrow> real list \<Rightarrow>
     Transform4f \<Rightarrow> Vector3f \<Rightarrow> (Point3f \<times> Spectrum) option" where
  "sample_target core TargetType self time aperture_sample active wav_weight trafo d =
     (case TargetType of
        Target_Point \<Rightarrow>
          Some (m_ray_target_point self,
                map (\<lambda>w. Finite (w * cos_theta (vneg d))) wav_weight)
      | Target_Shape \<Rightarrow>
          (case m_ray_target_shape self of
             None \<Rightarrow> None
           | Some shape \<Rightarrow>
               (let ps = sample_position shape time aperture_sample active;
                    si = SurfaceInteraction3f_of ps
                in Some (si_p si,
                         map (\<lambda>w. fdiv (w * dot (vneg d) (si_n si)) (ps_pdf ps)) wav_weight)))
      | Target_None \<Rightarrow>
          (let offset = square_to_uniform_disk_concentric core aperture_sample;
               perp_offset = transform_affine trafo (fst offset, snd offset, 0)
           in Some (vadd (center (m_bsphere self)) (vscale perp_offset (radius (m_bsphere self))),
                    map (\<lambda>w. Finite (w * (pi * sqr (radius (m_bsphere self))))) wav_weight)))"

text \<open>
  Step 3.2 (lines 310 to 326): the origin and the mask after it. The probe ray carries
  no wavelengths.
\<close>

definition sample_origin ::
  "RayTargetType \<Rightarrow> RayOriginType \<Rightarrow> DistantSensorImpl \<Rightarrow> real \<Rightarrow> Point3f \<Rightarrow> Vector3f \<Rightarrow> bool \<Rightarrow>
     (Point3f \<times> bool) option" where
  "sample_origin TargetType OriginType self time ray_target d active =
     (case OriginType of
        Origin_Shape \<Rightarrow>
          (case m_ray_origin_shape self of
             None \<Rightarrow> None
           | Some shape \<Rightarrow>
               (let tmp_ray = \<lparr>ray_o = ray_target, ray_d = vneg d, ray_time = time,
                                ray_wavelengths = []\<rparr>;
                    si = ray_intersect shape tmp_ray Minimal active
                in Some (si_p si, active \<and> is_valid si)))
      | Origin_BoundingSphere \<Rightarrow>
          (if TargetType = Target_None
           then Some (vsub ray_target (vscale d (radius (m_bsphere self))), active)
           else Some (vsub ray_target (vscale (vscale d 2) (radius (m_bsphere self))), active)))"

text \<open>Lines 261 to 329.\<close>

definition sample_ray_impl ::
  "Core \<Rightarrow> RayTargetType \<Rightarrow> RayOriginType \<Rightarrow> DistantSensorImpl \<Rightarrow> real \<Rightarrow> real \<Rightarrow> Point2f \<Rightarrow> Point2f \<Rightarrow>
     bool \<Rightarrow> (Ray3f \<times> Spectrum) option" where
  "sample_ray_impl core TargetType OriginType self time wavelength_sample film_sample
       aperture_sample active0 =
     (let active = MTS_MASK_ARGUMENT core active0;
          wavelengths = fst (sample_wavelength core wavelength_sample);
          wav_weight = snd (sample_wavelength core wavelength_sample);
          trafo = eval_transform (m_world_transform self) time active;
          d = transform_affine trafo (0, 0, 1)
      in case sample_target core TargetType self time aperture_sample active wav_weight trafo d of
           None \<Rightarrow> None
         | Some (ray_target, ray_weight) \<Rightarrow>
             (case sample_origin TargetType OriginType self time ray_target d active of
                None \<Rightarrow> None
              | Some (origin, active') \<Rightarrow>
                  Some (\<lparr>ray_o = origin, ray_d = d, ray_time = time,
                         ray_wavelengths = wavelengths\<rparr>,
                        mask_spectrum ray_weight active')))"

text \<open>
  Lines 331 to 341. \<open>ray.update()\<close> refreshes the cached reciprocal of the direction,
  which the record does not carry.
\<close>

definition update :: "Ray3f \<Rightarrow> Ray3f" where
  "update ray = ray"

definition sample_ray ::
  "Core \<Rightarrow> RayTargetType \<Rightarrow> RayOriginType \<Rightarrow> DistantSensorImpl \<Rightarrow> real \<Rightarrow> real \<Rightarrow> Point2f \<Rightarrow> Point2f \<Rightarrow>
     bool \<Rightarrow> (Ray3f \<times> Spectrum) option" where
  "sample_ray core TargetType OriginType self time wavelength_sample film_sample
       aperture_sample active0 =
     (let active = MTS_MASKED_FUNCTION core active0
      in case sample_ray_impl core TargetType OriginType self time wavelength_sample film_sample
                aperture_sample active of
           None \<Rightarrow> None
         | Some (ray, ray_weight) \<Rightarrow> Some (update ray, mask_spectrum ray_weight active))"

text \<open>Lines 343 to 357: the same, and the ray has no differentials.\<close>

definition sample_ray_differential ::
  "Core \<Rightarrow> RayTargetType \<Rightarrow> RayOriginType \<Rightarrow> DistantSensorImpl \<Rightarrow> real \<Rightarrow> real \<Rightarrow> Point2f \<Rightarrow> Point2f \<Rightarrow>
     bool \<Rightarrow> (RayDifferential3f \<times> Spectrum) option" where
  "sample_ray_differential core TargetType OriginType self time wavelength_sample film_sample
       aperture_sample active0 =
     (let active = MTS_MASKED_FUNCTION core active0
      in case sample_ray_impl core TargetType OriginType self time wavelength_sample film_sample
                aperture_sample active of
           None \<Rightarrow> None
         | Some (ray, ray_weight) \<Rightarrow>
             Some (\<lparr>ray_o = ray_o (update ray), ray_d = ray_d (update ray),
                    ray_time = ray_time (update ray),
                    ray_wavelengths = ray_wavelengths (update ray),
                    has_differentials = False\<rparr>,
                   mask_spectrum ray_weight active))"

text \<open>
  A packet variant runs the same body on every lane of its arguments: a packet call is
  the list of the calls on its lanes.
\<close>

type_synonym lane = "real \<times> real \<times> Point2f \<times> Point2f \<times> bool"

definition sample_ray_impl_lane ::
  "Core \<Rightarrow> RayTargetType \<Rightarrow> RayOriginType \<Rightarrow> DistantSensorImpl \<Rightarrow> lane \<Rightarrow> (Ray3f \<times> Spectrum) option" where
  "sample_ray_impl_lane core TargetType OriginType self l =
     (case l of (time, wavelength_sample, film_sample, aperture_sample, active) \<Rightarrow>
        sample_ray_impl core TargetType OriginType self time wavelength_sample film_sample
          aperture_sample active)"

definition sample_ray_impl_packet ::
  "Core \<Rightarrow> RayTargetType \<Rightarrow> RayOriginType \<Rightarrow> DistantSensorImpl \<Rightarrow> lane list \<Rightarrow>
     (Ray3f \<times> Spectrum) option list" where
  "sample_ray_impl_packet core TargetType OriginType self lanes =
     map (sample_ray_impl_lane core TargetType OriginType self) lanes"

subsection \<open>The local values of a call\<close>

text \<open>
  The values a call of \<open>sample_ray_impl\<close> holds in its local variables, as functions
  of the arguments of the call: the transform and the direction of step 2, the target
  and the weight of step 3.1 before masking, the origin and the mask of step 3.2.
\<close>

definition call_trafo :: "Core \<Rightarrow> DistantSensorImpl \<Rightarrow> real \<Rightarrow> bool \<Rightarrow> Transform4f" where
  "call_trafo core self time active0 =
     eval_transform (m_world_transform self) time (MTS_MASK_ARGUMENT core active0)"

definition call_direction :: "Core \<Rightarrow> DistantSensorImpl \<Rightarrow> real \<Rightarrow> bool \<Rightarrow> Vector3f" where
  "call_direction core self time active0 =
     transform_affine (call_trafo core self time active0) (0, 0, 1)"

definition call_target ::
  "Core \<Rightarrow> RayTargetType \<Rightarrow> DistantSensorImpl \<Rightarrow> real \<Rightarrow> real \<Rightarrow> Point2f \<Rightarrow> bool \<Rightarrow>
     (Point3f \<times> Spectrum) option" where
  "call_target core TargetType self time wavelength_sample aperture_sample active0 =
     sample_target core TargetType self time aperture_sample (MTS_MASK_ARGUMENT core active0)
       (snd (sample_wavelength core wavelength_sample))
       (call_trafo core self time active0) (call_direction core self time active0)"

definition call_origin ::
  "Core \<Rightarrow> RayTargetType \<Rightarrow> RayOriginType \<Rightarrow> DistantSensorImpl \<Rightarrow> real \<Rightarrow> real \<Rightarrow> Point2f \<Rightarrow> bool \<Rightarrow>
     (Point3f \<times> bool) option" where
  "call_origin core TargetType OriginType self time wavelength_sample aperture_sample active0 =
     (case call_target core TargetType self time wavelength_sample aperture_sample active0 of
        None \<Rightarrow> None
      | Some (ray_target, ray_weight) \<Rightarrow>
          sample_origin TargetType OriginType self time ray_target
            (call_direction core self time active0) (MTS_MASK_ARGUMENT core active0))"

text \<open>The probe ray of line 313.\<close>

definition probe_ray :: "Point3f \<Rightarrow> Vector3f \<Rightarrow> real \<Rightarrow> Ray3f" where
  "probe_ray ray_target d time =
     \<lparr>ray_o = ray_target, ray_d = vneg d, ray_time = time, ray_wavelengths = []\<rparr>"

subsection \<open>Notions of the specification\<close>

definition distance :: "Point3f \<Rightarrow> Point3f \<Rightarrow> real" where
  "distance p q = norm3 (vsub p q)"

text \<open>A rigid transform: the images of the three axes are orthonormal.\<close>

definition rigid :: "Transform4f \<Rightarrow> bool" where
  "rigid T =
     (dot (transform_affine T (1, 0, 0)) (transform_affine T (1, 0, 0)) = 1 \<and>
      dot (transform_affine T (0, 1, 0)) (transform_affine T (0, 1, 0)) = 1 \<and>
      dot (transform_affine T (0, 0, 1)) (transform_affine T (0, 0, 1)) = 1 \<and>
      dot (transform_affine T (1, 0, 0)) (transform_affine T (0, 1, 0)) = 0 \<and>
      dot (transform_affine T (1, 0, 0)) (transform_affine T (0, 0, 1)) = 0 \<and>
      dot (transform_affine T (0, 1, 0)) (transform_affine T (0, 0, 1)) = 0)"

definition zero_spectrum :: "'a list \<Rightarrow> Spectrum" where
  "zero_spectrum channels = map (\<lambda>c. Finite 0) channels"

subsection \<open>Example configurations\<close>

text \<open>
  A core library to run the examples with: two wavelength channels of weights 1 and 2,
  the concentric map of the square onto the disk, the normalisation in single
  precision, the orthonormal basis of Duff et al., the usual look-at matrix, the sphere
  around the midpoint of a box through its corners, and a packet variant's masking
  macros, which keep the mask.
\<close>

definition concentric_disk :: "Point2f \<Rightarrow> Point2f" where
  "concentric_disk sample =
     (let x = 2 * fst sample - 1; y = 2 * snd sample - 1
      in if x = 0 \<and> y = 0 then (0, 0)
         else if \<bar>x\<bar> < \<bar>y\<bar>
           then (y * cos (pi / 2 - pi / 4 * (x / y)), y * sin (pi / 2 - pi / 4 * (x / y)))
           else (x * cos (pi / 4 * (y / x)), x * sin (pi / 4 * (y / x))))"

fun cross :: "Vector3f \<Rightarrow> Vector3f \<Rightarrow> Vector3f" where
  "cross (a1, a2, a3) (b1, b2, b3) = (a2 * b3 - a3 * b2, a3 * b1 - a1 * b3, a1 * b2 - a2 * b1)"

fun basis_of :: "Vector3f \<Rightarrow> Vector3f \<times> Vector3f" where
  "basis_of (x, y, z) =
     (let s = (if 0 \<le> z then 1 else - 1); a = - (1 / (s + z)); b = x * y * a
      in ((s * (x * x * a) + 1, s * b, - (s * x)), (b, s + y * y * a, - y)))"

fun extend :: "Vector3f \<Rightarrow> real \<Rightarrow> Vector4f" where
  "extend (x, y, z) w = (x, y, z, w)"

definition look_at_matrix :: "Point3f \<Rightarrow> Point3f \<Rightarrow> Vector3f \<Rightarrow> Transform4f" where
  "look_at_matrix origin target up =
     (let dir = vscale (vsub target origin) (1 / norm3 (vsub target origin));
          left = vscale (cross up dir) (1 / norm3 (cross up dir));
          new_up = cross dir left
      in (extend left 0, extend new_up 0, extend dir 0, extend origin 1))"

text \<open>
  Single precision (binary32), the arithmetic of the default variants: 24 bits of
  significand, exponents from -126 to 127, subnormal numbers, rounding to the nearest
  value with ties to the even significand. \<open>rne\<close> rounds a real to an integer that
  way; \<open>fl32\<close> rounds a real to the grid of its binade (the lowest binade holds the
  subnormal numbers) and overflows to infinity.
\<close>

definition rne :: "real \<Rightarrow> int" where
  "rne y =
     (let f = \<lfloor>y\<rfloor>
      in if y - of_int f < 1 / 2 then f
         else if 1 / 2 < y - of_int f then f + 1
         else if even f then f else f + 1)"

definition fl32 :: "real \<Rightarrow> ieee" where
  "fl32 x =
     (if x = 0 then Finite 0
      else
        (let e = max \<lfloor>log 2 \<bar>x\<bar>\<rfloor> (- 126);
             q = 2 powr (of_int e - 23);
             y = of_int (rne (x / q)) * q
         in if 2 ^ 128 \<le> \<bar>y\<bar> then Infinite else Finite y))"

text \<open>
  The rounded operations. The sign of an infinity is not tracked, so \<open>add32\<close> is the
  sum of two values that are not infinities of opposite signs; it is applied to
  squares only.
\<close>

fun mul32 :: "ieee \<Rightarrow> ieee \<Rightarrow> ieee" where
  "mul32 (Finite a) (Finite b) = fl32 (a * b)"
| "mul32 (Finite a) Infinite = (if a = 0 then NaN else Infinite)"
| "mul32 Infinite (Finite b) = (if b = 0 then NaN else Infinite)"
| "mul32 Infinite Infinite = Infinite"
| "mul32 NaN b = NaN"
| "mul32 a NaN = NaN"

fun add32 :: "ieee \<Rightarrow> ieee \<Rightarrow> ieee" where
  "add32 (Finite a) (Finite b) = fl32 (a + b)"
| "add32 NaN b = NaN"
| "add32 a NaN = NaN"
| "add32 Infinite b = Infinite"
| "add32 a Infinite = Infinite"

fun sqrt32 :: "ieee \<Rightarrow> ieee" where
  "sqrt32 (Finite a) = (if a < 0 then NaN else fl32 (sqrt a))"
| "sqrt32 Infinite = Infinite"
| "sqrt32 NaN = NaN"

fun rcp32 :: "ieee \<Rightarrow> ieee" where
  "rcp32 (Finite a) = (if a = 0 then Infinite else fl32 (1 / a))"
| "rcp32 Infinite = Finite 0"
| "rcp32 NaN = NaN"

text \<open>
  Modelled from the spec: \<open>normalize\<close> (core/vector.h) is not under src/. In single
  precision it multiplies each component by the reciprocal square root of the squared
  norm (here the reciprocal of the rounded square root of the sum of the rounded
  squares), every operation rounded. A vector whose squared norm rounds to 0 has the
  reciprocal square root infinity, and the components \<open>x * infinity\<close>: infinite, or
  not a number for \<open>x = 0\<close>.
\<close>

fun all_finite :: "ieee \<times> ieee \<times> ieee \<Rightarrow> Vector3f option" where
  "all_finite (Finite a, Finite b, Finite c) = Some (a, b, c)"
| "all_finite v = None"

definition normalize_binary32 :: "Vector3f \<Rightarrow> Vector3f option" where
  "normalize_binary32 v =
     (case v of (x, y, z) \<Rightarrow>
        (let squared_norm =
               add32 (add32 (mul32 (Finite x) (Finite x)) (mul32 (Finite y) (Finite y)))
                 (mul32 (Finite z) (Finite z));
             r = rcp32 (sqrt32 squared_norm)
         in all_finite (mul32 (Finite x) r, mul32 (Finite y) r, mul32 (Finite z) r)))"

definition box_sphere :: "BoundingBox3f \<Rightarrow> BoundingSphere3f" where
  "box_sphere b =
     (let c = vscale (vadd (bbox_max b) (bbox_min b)) (1 / 2)
      in \<lparr>center = c, radius = norm3 (vsub c (bbox_max b))\<rparr>)"

definition example_core :: Core where
  "example_core =
     \<lparr>sample_wavelength = (\<lambda>sample. ([550, 600], [1, 2])),
      square_to_uniform_disk_concentric = concentric_disk,
      normalize3 = normalize_binary32,
      coordinate_system = basis_of,
      look_at = look_at_matrix,
      bounding_sphere = box_sphere,
      RayEpsilon = 1 / 10000,
      MTS_MASK_ARGUMENT = (\<lambda>mask. mask),
      MTS_MASKED_FUNCTION = (\<lambda>mask. mask)\<rparr>"

definition identity_transform :: Transform4f where
  "identity_transform = ((1, 0, 0, 0), (0, 1, 0, 0), (0, 0, 1, 0), (0, 0, 0, 1))"

text \<open>
  The object before the constructor body runs, for properties without \<open>to_world\<close>:
  the identity transform, a film of one pixel, the other members unset. With the unit
  sphere as bounds it is the object after a scene was attached.
\<close>

definition fresh_sensor :: DistantSensorImpl where
  "fresh_sensor =
     \<lparr>m_world_transform = AnimatedTransform_of identity_transform,
      m_film = \<lparr>film_size = (1, 1), film_filter_radius = 1 / 2\<rparr>,
      m_bsphere = \<lparr>center = (0, 0, 0), radius = 0\<rparr>,
      m_ray_target_shape = None,
      m_ray_target_point = (0, 0, 0),
      m_ray_origin_shape = None\<rparr>"

definition unit_sensor :: DistantSensorImpl where
  "unit_sensor = fresh_sensor\<lparr>m_bsphere := \<lparr>center = (0, 0, 0), radius = 1\<rparr>\<rparr>"

text \<open>The empty properties, and properties that set both \<open>direction\<close> and \<open>to_world\<close>.\<close>

definition no_props :: Properties where
  "no_props = (\<lambda>name. None)"

definition both_props :: Properties where
  "both_props =
     no_props(''direction'' := Some (Array3f_value (0, 0, - 1)),
                    ''to_world'' := Some (Transform_value (AnimatedTransform_of identity_transform)))"

text \<open>
  A sensor looking down the z axis, its transform the look-at matrix for the direction
  \<open>(0, 0, -1)\<close> with the up vector of \<open>basis_of\<close>; the same with a point target.
\<close>

definition down_sensor :: DistantSensorImpl where
  "down_sensor =
     unit_sensor\<lparr>m_world_transform :=
       AnimatedTransform_of (look_at_matrix (0, 0, 0) (0, 0, - 1) (1, 0, 0))\<rparr>"

definition down_point_sensor :: DistantSensorImpl where
  "down_point_sensor = down_sensor\<lparr>m_ray_target_point := (0, 0, 1 / 2)\<rparr>"

text \<open>
  A shape that no ray hits and that reports the position \<open>(7, 8, 9)\<close> with its miss, and
  a shape that is hit from the origins with a non-negative first coordinate only.
\<close>

definition miss_shape :: Shape where
  "miss_shape =
     \<lparr>sample_position = (\<lambda>time sample active. \<lparr>ps_p = (0, 0, 0), ps_n = (0, 0, 1), ps_pdf = 1\<rparr>),
      ray_intersect = (\<lambda>ray flags active. \<lparr>si_p = (7, 8, 9), si_n = (0, 0, 0), si_t = None\<rparr>)\<rparr>"

definition half_space_shape :: Shape where
  "half_space_shape =
     \<lparr>sample_position = (\<lambda>time sample active. \<lparr>ps_p = (0, 0, 0), ps_n = (0, 0, 1), ps_pdf = 1\<rparr>),
      ray_intersect = (\<lambda>ray flags active.
        if 0 \<le> fst (ray_o ray)
        then \<lparr>si_p = vadd (ray_o ray) (ray_d ray), si_n = vneg (ray_d ray), si_t = Some 1\<rparr>
        else \<lparr>si_p = (0, 0, 0), si_n = (0, 0, 0), si_t = None\<rparr>)\<rparr>"

definition miss_sensor :: DistantSensorImpl where
  "miss_sensor = down_point_sensor\<lparr>m_ray_origin_shape := Some miss_shape\<rparr>"

definition half_space_sensor :: DistantSensorImpl where
  "half_space_sensor = unit_sensor\<lparr>m_ray_origin_shape := Some half_space_shape\<rparr>"

text \<open>A packet of two lanes that differ in the aperture sample.\<close>

definition two_lanes :: "lane list" where
  "two_lanes = [(0, 0, (0, 0), (1, 1 / 2), True), (0, 0, (0, 0), (0, 1 / 2), True)]"

text \<open>
  Two target shapes: one whose position sampling reports the density 0, and one with
  the density \<open>1 / 4\<close>; both looking up, and sensors that look down on them.
\<close>

definition zero_pdf_shape :: Shape where
  "zero_pdf_shape =
     \<lparr>sample_position = (\<lambda>time sample active. \<lparr>ps_p = (0, 0, 0), ps_n = (0, 0, 1), ps_pdf = 0\<rparr>),
      ray_intersect = ray_intersect miss_shape\<rparr>"

definition patch_shape :: Shape where
  "patch_shape =
     \<lparr>sample_position = (\<lambda>time sample active.
        \<lparr>ps_p = (fst sample, snd sample, 0), ps_n = (0, 0, 1), ps_pdf = 1 / 4\<rparr>),
      ray_intersect = ray_intersect miss_shape\<rparr>"

definition zero_pdf_sensor :: DistantSensorImpl where
  "zero_pdf_sensor = down_sensor\<lparr>m_ray_target_shape := Some zero_pdf_shape\<rparr>"

definition patch_sensor :: DistantSensorImpl where
  "patch_sensor = down_sensor\<lparr>m_ray_target_shape := Some patch_shape\<rparr>"

text \<open>
  A point target two units below the centre of the unit bounds, seen from above; and
  properties that set the direction \<open>(0, 0, -1)\<close> and nothing else.
\<close>

text \<open>
  A direction of the tiny length \<open>1 / 2 ^ 100\<close>, a single precision number whose
  square is below every positive single precision number, and the same direction
  scaled by \<open>2 ^ 100\<close> to the length 1.
\<close>

definition tiny :: real where
  "tiny = 1 / 2 ^ 100"

definition tiny_props :: Properties where
  "tiny_props = no_props(''direction'' := Some (Array3f_value (tiny, 0, 0)))"

definition scaled_tiny_props :: Properties where
  "scaled_tiny_props =
     no_props(''direction'' := Some (Array3f_value (vscale (tiny, 0, 0) (2 ^ 100))))"

definition far_point_sensor :: DistantSensorImpl where
  "far_point_sensor = down_sensor\<lparr>m_ray_target_point := (0, 0, - 2)\<rparr>"

definition down_props :: Properties where
  "down_props = no_props(''direction'' := Some (Array3f_value (0, 0, - 1)))"

section \<open>Properties of the sensor\<close>

subsection \<open>Auxiliary facts\<close>

lemma fdiv_zero_not_finite: "fdiv a 0 \<noteq> Finite x"
  by (simp add: fdiv_def)

lemma mask_spectrum_True: "mask_spectrum w True = w"
  by (simp add: mask_spectrum_def)

lemma mask_spectrum_False: "mask_spectrum w False = zero_spectrum w"
  by (simp add: mask_spectrum_def zero_spectrum_def)

text \<open>A call in terms of its local values.\<close>

lemma sample_ray_impl_locals:
  "sample_ray_impl core TargetType OriginType self time wavelength_sample film_sample
     aperture_sample active0 =
   (case call_target core TargetType self time wavelength_sample aperture_sample active0 of
      None \<Rightarrow> None
    | Some (ray_target, ray_weight) \<Rightarrow>
        (case sample_origin TargetType OriginType self time ray_target
                (call_direction core self time active0) (MTS_MASK_ARGUMENT core active0) of
           None \<Rightarrow> None
         | Some (origin, active') \<Rightarrow>
             Some (\<lparr>ray_o = origin, ray_d = call_direction core self time active0,
                    ray_time = time,
                    ray_wavelengths = fst (sample_wavelength core wavelength_sample)\<rparr>,
                   mask_spectrum ray_weight active')))"
  by (simp add: sample_ray_impl_def call_target_def call_direction_def call_trafo_def Let_def
           split: option.splits prod.splits)

lemma cos_theta_dot: "cos_theta v = dot v (0, 0, 1)"
  by (cases v) simp

text \<open>The definitions that evaluate a call, and those of the examples.\<close>

lemmas call_defs =
  sample_ray_impl_locals call_target_def call_direction_def call_trafo_def
  sample_target_def sample_origin_def eval_transform_def AnimatedTransform_of_def
  mask_spectrum_def zero_spectrum_def probe_ray_def is_valid_def SurfaceInteraction3f_of_def

lemmas example_defs =
  example_core_def fresh_sensor_def unit_sensor_def down_sensor_def down_point_sensor_def
  miss_shape_def half_space_shape_def miss_sensor_def half_space_sensor_def two_lanes_def
  identity_transform_def look_at_matrix_def norm3_def concentric_disk_def Let_def

lemma mask_zero_spectrum: "mask_spectrum (zero_spectrum w) active = zero_spectrum w"
  by (simp add: mask_spectrum_def zero_spectrum_def)

lemma sample_origin_shape:
  "m_ray_origin_shape self = Some shape \<Longrightarrow>
   sample_origin TargetType Origin_Shape self time ray_target d active =
     Some (si_p (ray_intersect shape (probe_ray ray_target d time) Minimal active),
           active \<and> is_valid (ray_intersect shape (probe_ray ray_target d time) Minimal active))"
  by (simp add: sample_origin_def probe_ray_def Let_def)

lemmas shape_defs = zero_pdf_shape_def patch_shape_def zero_pdf_sensor_def patch_sensor_def

lemma fdiv_nonzero: "b \<noteq> 0 \<Longrightarrow> fdiv a b = Finite (a / b)"
  by (simp add: fdiv_def)

lemma fdiv_zero: "fdiv a 0 = (if a = 0 then NaN else Infinite)"
  by (simp add: fdiv_def)

subsection \<open>The constructor and the direction\<close>

lemma expand_eq:
  "expand core sensor self =
     new_Impl core (m_ray_target_type sensor) (m_ray_origin_type sensor) (m_props sensor) self"
  by (simp add: expand_def split: RayTargetType.splits RayOriginType.splits)

lemma ctor_transform_direction:
  assumes "props ''direction'' = Some (Array3f_value v)"
  shows "ctor_transform core props self =
     (if has_property props ''to_world'' then Thrown (Throw only_one_message)
      else case normalize3 core v of
             None \<Rightarrow> Not_a_number
           | Some n \<Rightarrow>
               Constructed (self\<lparr>m_world_transform :=
                 AnimatedTransform_of
                   (look_at core (0, 0, 0) n (fst (coordinate_system core n)))\<rparr>))"
  using assms
  by (simp add: ctor_transform_def has_property_def vector3f_def array3f_def Let_def
           split: option.splits)

lemma ctor_target_direction:
  "ctor_target TargetType (props(''direction'' := x)) s = ctor_target TargetType props s"
  by (cases TargetType) (simp_all add: ctor_target_def point3f_def array3f_def object_def)

lemma ctor_origin_direction:
  "ctor_origin OriginType (props(''direction'' := x)) s = ctor_origin OriginType props s"
  by (cases OriginType) (simp_all add: ctor_origin_def object_def)

lemma DistantSensor_ctor_direction:
  "m_ray_target_type (DistantSensor_ctor (props(''direction'' := x))) =
     m_ray_target_type (DistantSensor_ctor props) \<and>
   m_ray_origin_type (DistantSensor_ctor (props(''direction'' := x))) =
     m_ray_origin_type (DistantSensor_ctor props)"
  by (simp add: DistantSensor_ctor_def has_property_def point3f_def array3f_def)

text \<open>The steps after the first leave the transform as it is.\<close>

lemma and_then_Constructed:
  "and_then x f = Constructed y \<longleftrightarrow> (\<exists>z. x = Constructed z \<and> f z = Constructed y)"
  by (cases x) simp_all

lemma ctor_target_transform:
  "ctor_target TargetType props s = Constructed s' \<Longrightarrow> m_world_transform s' = m_world_transform s"
  by (cases TargetType)
     (auto simp add: ctor_target_def split: sum.splits option.splits)

lemma ctor_origin_transform:
  "ctor_origin OriginType props s = Constructed s' \<Longrightarrow> m_world_transform s' = m_world_transform s"
  by (cases OriginType)
     (auto simp add: ctor_origin_def split: sum.splits option.splits)

lemma ctor_film_transform:
  "ctor_film s = Constructed s' \<Longrightarrow> m_world_transform s' = m_world_transform s"
  by (auto simp add: ctor_film_def split: if_splits)

lemma ctor_keeps_transform:
  assumes "ctor_transform core props self = Constructed s0"
      and "DistantSensorImpl_ctor core TargetType OriginType props self = Constructed s"
  shows "m_world_transform s = m_world_transform s0"
proof -
  from assms obtain s1 s2 where
    "ctor_target TargetType props s0 = Constructed s1"
    "ctor_origin OriginType props s1 = Constructed s2"
    "ctor_film s2 = Constructed s"
    by (auto simp add: DistantSensorImpl_ctor_def and_then_Constructed)
  then show ?thesis
    by (simp add: ctor_target_transform ctor_origin_transform ctor_film_transform)
qed

subsection \<open>Single precision\<close>

lemma rne_of_int: "rne (of_int m) = m"
  by (simp add: rne_def)

lemma rne_small:
  assumes "\<bar>y\<bar> < 1 / 2"
  shows "rne y = 0"
proof (cases "0 \<le> y")
  case True
  with assms have "\<lfloor>y\<rfloor> = 0"
    by (simp add: floor_eq_iff)
  with True assms show ?thesis
    by (simp add: rne_def)
next
  case False
  with assms have "\<lfloor>y\<rfloor> = - 1"
    by (simp add: floor_eq_iff)
  with False assms show ?thesis
    by (simp add: rne_def)
qed

text \<open>Below half of the smallest subnormal number everything rounds to 0.\<close>

lemma fl32_underflow:
  assumes "\<bar>x\<bar> < 2 powr (- 150)"
  shows "fl32 x = Finite 0"
proof (cases "x = 0")
  case True
  then show ?thesis
    by (simp add: fl32_def)
next
  case False
  then have pos: "0 < \<bar>x\<bar>"
    by simp
  have "log 2 \<bar>x\<bar> < log 2 (2 powr (- 150))"
    using assms pos by (simp add: log_less_cancel_iff del: log_powr_cancel)
  then have "log 2 \<bar>x\<bar> < - 150"
    by simp
  then have "\<lfloor>log 2 \<bar>x\<bar>\<rfloor> < - 126"
    by (simp add: floor_less_iff)
  then have e: "max \<lfloor>log 2 \<bar>x\<bar>\<rfloor> (- 126) = - 126"
    by simp
  have "\<bar>x / 2 powr (- 149)\<bar> = \<bar>x\<bar> / 2 powr (- 149)"
    by simp
  also have "\<dots> < 2 powr (- 150) / 2 powr (- 149)"
    using assms by (simp add: divide_strict_right_mono)
  also have "\<dots> = 1 / 2"
    by (simp add: powr_diff [symmetric] powr_minus)
  finally have "rne (x / 2 powr (- 149)) = 0"
    by (rule rne_small)
  then show ?thesis
    using False by (simp add: fl32_def e Let_def)
qed

text \<open>A power of two in the range of the exponents is a single precision number.\<close>

lemma fl32_power_of_two:
  assumes "- 126 \<le> k" and "k \<le> 127" and "s = 1 \<or> s = - 1"
  shows "fl32 (s * 2 powr of_int k) = Finite (s * 2 powr of_int k)"
proof -
  have a: "\<bar>s * 2 powr of_int k\<bar> = 2 powr of_int k"
    using assms(3) by auto
  have e: "max \<lfloor>log 2 \<bar>s * 2 powr of_int k\<bar>\<rfloor> (- 126) = k"
    using assms(1) by (simp add: a)
  have "s * 2 powr of_int k / 2 powr (of_int k - 23) = s * 2 powr 23"
    by (simp add: powr_diff)
  also have "\<dots> = of_int (if s = 1 then 8388608 else - 8388608)"
    using assms(3) by auto
  finally have r: "rne (s * 2 powr of_int k / 2 powr (of_int k - 23)) =
                   (if s = 1 then 8388608 else - 8388608)"
    by (simp only: rne_of_int)
  have y: "of_int (if s = 1 then 8388608 else - 8388608) * 2 powr (of_int k - 23) =
           s * 2 powr of_int k"
    using assms(3) by (auto simp add: powr_diff)
  have "(2 :: real) powr of_int k < 2 powr 128"
    using assms(2) by (intro powr_less_mono) simp_all
  also have "(2 :: real) powr 128 = 2 ^ 128"
    by simp
  finally have b: "\<not> 2 ^ 128 \<le> \<bar>s * 2 powr of_int k\<bar>"
    by (simp add: a)
  have nz: "s * 2 powr of_int k \<noteq> 0"
    using assms(3) by auto
  show ?thesis
    unfolding fl32_def using nz b by (simp only: e r y Let_def if_False)
qed

lemma fl32_values:
  "fl32 0 = Finite 0" "fl32 1 = Finite 1" "fl32 2 = Finite 2" "fl32 4 = Finite 4"
  "fl32 (1 / 2) = Finite (1 / 2)" "fl32 (- 1) = Finite (- 1)"
  using fl32_power_of_two [of 0 1] fl32_power_of_two [of 1 1] fl32_power_of_two [of 2 1]
    fl32_power_of_two [of "- 1" 1] fl32_power_of_two [of 0 "- 1"]
  by (simp_all add: powr_minus fl32_def)

lemma tiny_squared: "fl32 (tiny * tiny) = Finite 0"
proof (rule fl32_underflow)
  have "tiny * tiny = 1 / 2 ^ 200"
    by (simp add: tiny_def)
  moreover have "(2 :: real) powr (- 150) = 1 / 2 ^ 150"
    by (simp add: powr_minus inverse_eq_divide)
  ultimately show "\<bar>tiny * tiny\<bar> < 2 powr (- 150)"
    by simp
qed

lemma tiny_nonzero: "tiny \<noteq> 0"
  by (simp add: tiny_def)

lemma normalize_binary32_tiny: "normalize_binary32 (tiny, 0, 0) = None"
  by (simp add: normalize_binary32_def tiny_squared tiny_nonzero fl32_values Let_def)

lemma normalize_binary32_values:
  "normalize_binary32 (1, 0, 0) = Some (1, 0, 0)"
  "normalize_binary32 (0, 0, - 1) = Some (0, 0, - 1)"
  "normalize_binary32 (0, 0, - 2) = Some (0, 0, - 1)"
  by (simp_all add: normalize_binary32_def fl32_values Let_def)

subsection \<open>Construction\<close>

text \<open>
  C6. Properties that hold both \<open>direction\<close> and \<open>to_world\<close> make the constructor of
  the engine throw, for each pair of strategies, and so make \<open>expand\<close> of the resolver
  throw: no engine object is produced.
\<close>

theorem direction_and_to_world_throws:
  assumes "has_property props ''direction''" and "has_property props ''to_world''"
  shows "DistantSensorImpl_ctor core TargetType OriginType props self =
           Thrown (Throw only_one_message) \<and>
         expand core (DistantSensor_ctor props) self = Thrown (Throw only_one_message)"
  using assms
  by (simp add: DistantSensorImpl_ctor_def expand_eq new_Impl_def ctor_transform_def
        DistantSensor_ctor_def)

theorem direction_and_to_world_throws_witness:
  "has_property both_props ''direction'' \<and> has_property both_props ''to_world'' \<and>
   DistantSensorImpl_ctor example_core Target_None Origin_BoundingSphere both_props fresh_sensor =
     Thrown (Throw only_one_message) \<and>
   expand example_core (DistantSensor_ctor both_props) fresh_sensor =
     Thrown (Throw only_one_message)"
proof -
  have d: "has_property both_props ''direction''"
    by (simp add: has_property_def both_props_def no_props_def)
  have t: "has_property both_props ''to_world''"
    by (simp add: has_property_def both_props_def no_props_def)
  show ?thesis
    using d t direction_and_to_world_throws
      [OF d t, of example_core Target_None Origin_BoundingSphere fresh_sensor]
    by simp
qed

text \<open>
  C10, as the code has it. The constructor normalises the direction before it builds
  the look-at transform: for properties with a direction \<open>v\<close> (and no \<open>to_world\<close>) whose
  normalised vector \<open>n\<close> is finite, the stored transform is, at every time, the look-at
  transform from the origin towards \<open>n\<close> with the first vector of the orthonormal basis
  of \<open>n\<close> as up vector, and the ray direction of every call is that transform applied
  to \<open>(0, 0, 1)\<close>. So a direction \<open>v'\<close> with the same normalised vector constructs the
  same object (or throws the same exception), through \<open>expand\<close> as well, and the two
  sensors, attached to the same scene, return the same ray and weight for the same
  sample.
\<close>

theorem direction_normalised:
  assumes dir: "props ''direction'' = Some (Array3f_value v)"
      and tw: "\<not> has_property props ''to_world''"
      and n: "normalize3 core v = Some n"
      and T: "T = look_at core (0, 0, 0) n (fst (coordinate_system core n))"
      and p': "props' = props(''direction'' := Some (Array3f_value v'))"
  shows
  "ctor_transform core props self =
     Constructed (self\<lparr>m_world_transform := AnimatedTransform_of T\<rparr>) \<and>
   (\<forall>s. DistantSensorImpl_ctor core TargetType OriginType props self = Constructed s \<longrightarrow>
      m_world_transform s = AnimatedTransform_of T \<and>
      call_direction core (set_scene core s scene) time active = transform_affine T (0, 0, 1)) \<and>
   (normalize3 core v' = Some n \<longrightarrow>
      DistantSensorImpl_ctor core TargetType OriginType props' self =
        DistantSensorImpl_ctor core TargetType OriginType props self \<and>
      expand core (DistantSensor_ctor props') self = expand core (DistantSensor_ctor props) self \<and>
      (\<forall>s s'. DistantSensorImpl_ctor core TargetType OriginType props' self = Constructed s' \<and>
               DistantSensorImpl_ctor core TargetType OriginType props self = Constructed s \<longrightarrow>
         sample_ray core TargetType OriginType (set_scene core s' scene) time wavelength_sample
           film_sample aperture_sample active =
         sample_ray core TargetType OriginType (set_scene core s scene) time wavelength_sample
           film_sample aperture_sample active))"
proof -
  have t: "ctor_transform core props self =
     Constructed (self\<lparr>m_world_transform := AnimatedTransform_of T\<rparr>)"
    using tw by (simp add: ctor_transform_direction [of props v, OF dir] n T)
  have w: "m_world_transform s = AnimatedTransform_of T \<and>
      call_direction core (set_scene core s scene) time active = transform_affine T (0, 0, 1)"
    if "DistantSensorImpl_ctor core TargetType OriginType props self = Constructed s" for s
  proof -
    have "m_world_transform s = AnimatedTransform_of T"
      using ctor_keeps_transform [OF t that] by simp
    then show ?thesis
      by (simp add: call_direction_def call_trafo_def set_scene_def Let_def eval_transform_def
            AnimatedTransform_of_def)
  qed
  have same: "DistantSensorImpl_ctor core tt ot props' self =
              DistantSensorImpl_ctor core tt ot props self"
    if "normalize3 core v' = Some n" for tt ot
  proof -
    have d': "props' ''direction'' = Some (Array3f_value v')"
      by (simp add: p')
    have tw': "\<not> has_property props' ''to_world''"
      using tw by (simp add: p' has_property_def)
    have "ctor_transform core props' self = ctor_transform core props self"
      using tw tw' that by (simp add: ctor_transform_direction [of props' v', OF d'] t T)
    then show ?thesis
      by (simp add: DistantSensorImpl_ctor_def)
         (simp add: p' ctor_target_direction ctor_origin_direction)
  qed
  have e: "expand core (DistantSensor_ctor props') self =
           expand core (DistantSensor_ctor props) self"
    if "normalize3 core v' = Some n"
    using DistantSensor_ctor_direction [of props "Some (Array3f_value v')"] same [OF that]
    by (simp add: expand_eq new_Impl_def p' DistantSensor_ctor_def)
  show ?thesis
    using t w same e by auto
qed

text \<open>
  The claim as stated fails in single precision. The direction \<open>(1 / 2 ^ 100, 0, 0)\<close>
  is not zero, but its squared norm rounds to 0 and its normalised vector has
  components that are not finite, so that the constructor leaves no finite transform;
  scaled by \<open>2 ^ 100\<close> it is \<open>(1, 0, 0)\<close> and gives the look-at transform of that
  direction.
\<close>

theorem direction_normalised_counterexample:
  "(0 :: real) < 2 ^ 100 \<and> (tiny, 0, 0) \<noteq> (0 :: real, 0 :: real, 0 :: real) \<and>
   vscale (tiny, 0, 0) (2 ^ 100) = (1, 0, 0) \<and>
   DistantSensorImpl_ctor example_core Target_None Origin_BoundingSphere tiny_props
     fresh_sensor = Not_a_number \<and>
   DistantSensorImpl_ctor example_core Target_None Origin_BoundingSphere scaled_tiny_props
     fresh_sensor =
     Constructed (fresh_sensor\<lparr>m_world_transform :=
       AnimatedTransform_of (look_at_matrix (0, 0, 0) (1, 0, 0) (0, 0, - 1))\<rparr>)"
proof -
  have s: "vscale (tiny, 0, 0) (2 ^ 100) = (1, 0, 0)"
    by (simp add: tiny_def)
  have dt: "tiny_props ''direction'' = Some (Array3f_value (tiny, 0, 0))"
    by (simp add: tiny_props_def)
  have ds: "scaled_tiny_props ''direction'' = Some (Array3f_value (1, 0, 0))"
    by (simp add: scaled_tiny_props_def tiny_def)
  have nt: "normalize3 example_core (tiny, 0, 0) = None"
    by (simp add: example_core_def normalize_binary32_tiny)
  have ns: "normalize3 example_core (1, 0, 0) = Some (1, 0, 0)"
    by (simp add: example_core_def normalize_binary32_values)
  have a: "DistantSensorImpl_ctor example_core Target_None Origin_BoundingSphere tiny_props
             fresh_sensor = Not_a_number"
    by (simp add: DistantSensorImpl_ctor_def
          ctor_transform_direction [of tiny_props "(tiny, 0, 0)", OF dt] nt)
       (simp add: tiny_props_def no_props_def has_property_def)
  have b: "DistantSensorImpl_ctor example_core Target_None Origin_BoundingSphere
             scaled_tiny_props fresh_sensor =
     Constructed (fresh_sensor\<lparr>m_world_transform :=
       AnimatedTransform_of (look_at_matrix (0, 0, 0) (1, 0, 0) (0, 0, - 1))\<rparr>)"
    by (simp add: DistantSensorImpl_ctor_def
          ctor_transform_direction [of scaled_tiny_props "(1, 0, 0)", OF ds] ns
          ctor_target_def ctor_origin_def ctor_film_def)
       (simp add: scaled_tiny_props_def no_props_def has_property_def example_core_def
          fresh_sensor_def Let_def)
  have k: "(0 :: real) < 2 ^ 100"
    by simp
  have v: "(tiny, 0, 0) \<noteq> (0 :: real, 0 :: real, 0 :: real)"
    by (simp add: tiny_nonzero)
  from k v s a b show ?thesis
    by blast
qed

theorem direction_normalised_witness:
  "down_props ''direction'' = Some (Array3f_value (0, 0, - 1)) \<and>
   \<not> has_property down_props ''to_world'' \<and>
   normalize3 example_core (0, 0, - 1) = Some (0, 0, - 1) \<and>
   normalize3 example_core (0, 0, - 2) = Some (0, 0, - 1) \<and>
   DistantSensorImpl_ctor example_core Target_None Origin_BoundingSphere
     (down_props(''direction'' := Some (Array3f_value (0, 0, - 2)))) fresh_sensor =
     DistantSensorImpl_ctor example_core Target_None Origin_BoundingSphere down_props
       fresh_sensor \<and>
   DistantSensorImpl_ctor example_core Target_None Origin_BoundingSphere down_props
     fresh_sensor =
     Constructed (fresh_sensor\<lparr>m_world_transform :=
       AnimatedTransform_of (look_at_matrix (0, 0, 0) (0, 0, - 1) (1, 0, 0))\<rparr>)"
proof -
  have dir: "down_props ''direction'' = Some (Array3f_value (0, 0, - 1))"
    by (simp add: down_props_def)
  have tw: "\<not> has_property down_props ''to_world''"
    by (simp add: down_props_def no_props_def has_property_def)
  have n: "normalize3 example_core (0, 0, - 1) = Some (0, 0, - 1)"
    by (simp add: example_core_def normalize_binary32_values)
  have n': "normalize3 example_core (0, 0, - 2) = Some (0, 0, - 1)"
    by (simp add: example_core_def normalize_binary32_values)
  have c: "DistantSensorImpl_ctor example_core Target_None Origin_BoundingSphere down_props
             fresh_sensor =
     Constructed (fresh_sensor\<lparr>m_world_transform :=
       AnimatedTransform_of (look_at_matrix (0, 0, 0) (0, 0, - 1) (1, 0, 0))\<rparr>)"
    by (simp add: DistantSensorImpl_ctor_def
          ctor_transform_direction [of down_props "(0, 0, - 1)", OF dir] n
          ctor_target_def ctor_origin_def ctor_film_def)
       (simp add: down_props_def no_props_def has_property_def example_core_def
          fresh_sensor_def)
  show ?thesis
    using dir tw n n' c
      direction_normalised [where v' = "(0, 0, - 2)" and self = fresh_sensor and
        TargetType = Target_None and OriginType = Origin_BoundingSphere,
        OF dir tw n refl refl]
    by simp
qed

subsection \<open>Scene attachment\<close>

text \<open>
  C7. Attaching the same scene a second time changes nothing; the bounds do not depend
  on the bounds stored before; the stored sphere has the centre of the scene's bounding
  sphere and the radius \<open>max \<epsilon> (r * (1 + \<epsilon>))\<close> for the radius \<open>r\<close> of that sphere;
  and no member but the bounds is changed.
\<close>

theorem set_scene_recomputes:
  "set_scene core (set_scene core self scene) scene = set_scene core self scene \<and>
   set_scene core (self\<lparr>m_bsphere := b\<rparr>) scene = set_scene core self scene \<and>
   center (m_bsphere (set_scene core self scene)) = center (bounding_sphere core (scene_bbox scene)) \<and>
   radius (m_bsphere (set_scene core self scene)) =
     max (RayEpsilon core) (radius (bounding_sphere core (scene_bbox scene)) * (1 + RayEpsilon core)) \<and>
   set_scene core self scene = self\<lparr>m_bsphere := m_bsphere (set_scene core self scene)\<rparr>"
  by (simp add: set_scene_def Let_def)

subsection \<open>Point targets\<close>

text \<open>
  C8. With a point target, two calls that agree on the time, the wavelength sample and
  the mask return the same ray (origin, direction, time, wavelengths) and the same
  weight whatever their film and aperture samples are, for both origin strategies, and
  the target of both is the configured point.
\<close>

theorem point_target_ignores_aperture:
  "sample_ray_impl core Target_Point OriginType self time wavelength_sample film_sample1
     aperture_sample1 active =
   sample_ray_impl core Target_Point OriginType self time wavelength_sample film_sample2
     aperture_sample2 active \<and>
   sample_ray core Target_Point OriginType self time wavelength_sample film_sample1
     aperture_sample1 active =
   sample_ray core Target_Point OriginType self time wavelength_sample film_sample2
     aperture_sample2 active \<and>
   map_option fst
     (call_target core Target_Point self time wavelength_sample aperture_sample1 active) =
     Some (m_ray_target_point self) \<and>
   map_option fst
     (call_target core Target_Point self time wavelength_sample aperture_sample2 active) =
     Some (m_ray_target_point self)"
  by (simp add: sample_ray_def sample_ray_impl_locals call_target_def sample_target_def)

text \<open>
  C4. With a point target the target of every call is the configured point, and the
  weight of step 3.1 is, in each channel, the spectral weight times \<open>cos_theta\<close> of the
  reversed ray direction: its cosine against the up axis \<open>(0, 0, 1)\<close>, the third
  coordinate of the reversed direction. The call returns this weight under the mask
  that the origin step leaves.
\<close>

theorem point_target_weight:
  assumes "sample_origin Target_Point OriginType self time (m_ray_target_point self)
             (call_direction core self time active0) (MTS_MASK_ARGUMENT core active0) =
           Some (origin, active')"
  shows
  "call_target core Target_Point self time wavelength_sample aperture_sample active0 =
     Some (m_ray_target_point self,
           map (\<lambda>w. Finite (w * cos_theta (vneg (call_direction core self time active0))))
             (snd (sample_wavelength core wavelength_sample))) \<and>
   cos_theta (vneg (call_direction core self time active0)) =
     dot (vneg (call_direction core self time active0)) (0, 0, 1) \<and>
   map_option snd
     (sample_ray_impl core Target_Point OriginType self time wavelength_sample film_sample
        aperture_sample active0) =
     Some (mask_spectrum
             (map (\<lambda>w. Finite (w * cos_theta (vneg (call_direction core self time active0))))
                (snd (sample_wavelength core wavelength_sample)))
             active')"
  using assms
  by (simp add: sample_ray_impl_locals call_target_def sample_target_def cos_theta_dot)

theorem point_target_weight_witness:
  "sample_origin Target_Point Origin_BoundingSphere down_point_sensor 0 (0, 0, 1 / 2)
     (call_direction example_core down_point_sensor 0 True) True = Some ((0, 0, 5 / 2), True) \<and>
   call_target example_core Target_Point down_point_sensor 0 0 (1 / 4, 3 / 4) True =
     Some ((0, 0, 1 / 2), [Finite 1, Finite 2]) \<and>
   map_option snd
     (sample_ray_impl example_core Target_Point Origin_BoundingSphere down_point_sensor
        0 0 (0, 0) (1 / 4, 3 / 4) True) =
     Some [Finite 1, Finite 2]"
proof -
  have o: "sample_origin Target_Point Origin_BoundingSphere down_point_sensor 0
             (m_ray_target_point down_point_sensor)
             (call_direction example_core down_point_sensor 0 True)
             (MTS_MASK_ARGUMENT example_core True) = Some ((0, 0, 5 / 2), True)"
    by (simp add: call_defs example_defs)
  show ?thesis
    using o point_target_weight [OF o, of 0 "(1 / 4, 3 / 4)" "(0, 0)"]
    by (simp add: call_defs example_defs)
qed


subsection \<open>No target: the cross section of the bounding sphere\<close>

text \<open>
  C5. Without a target the target point is the centre of the bounding sphere plus the
  radius times the image, under the sensor's transform, of the disk offset that the
  concentric warp gives for the aperture sample; the weight of step 3.1 is the
  spectral weight times \<open>\<pi> r\<^sup>2\<close> in each channel, the same for every aperture sample; with
  the bounding sphere as origin strategy the call returns the origin
  \<open>target - direction * r\<close> and this weight under the mask. For the centre
  \<open>(0, 0, 0)\<close>, the radius 1, the direction \<open>(0, 0, -1)\<close> and an aperture sample that the
  warp sends to the centre of the disk, the target is \<open>(0, 0, 0)\<close>, the origin
  \<open>(0, 0, 1)\<close> and the weight the spectral weight times \<open>\<pi>\<close>.
\<close>

theorem none_target_sample:
  assumes off: "offset = square_to_uniform_disk_concentric core aperture_sample"
      and wav: "wav_weight = snd (sample_wavelength core wavelength_sample)"
      and tgt: "ray_target =
                  vadd (center (m_bsphere self))
                    (vscale (transform_affine (call_trafo core self time active0)
                               (fst offset, snd offset, 0))
                       (radius (m_bsphere self)))"
  shows
  "call_target core Target_None self time wavelength_sample aperture_sample active0 =
     Some (ray_target,
           map (\<lambda>w. Finite (w * (pi * (radius (m_bsphere self))\<^sup>2))) wav_weight) \<and>
   map_option snd
     (call_target core Target_None self time wavelength_sample aperture_sample' active0) =
     Some (map (\<lambda>w. Finite (w * (pi * (radius (m_bsphere self))\<^sup>2))) wav_weight) \<and>
   sample_ray_impl core Target_None Origin_BoundingSphere self time wavelength_sample
     film_sample aperture_sample active0 =
     Some (\<lparr>ray_o = vsub ray_target
                      (vscale (call_direction core self time active0) (radius (m_bsphere self))),
            ray_d = call_direction core self time active0,
            ray_time = time,
            ray_wavelengths = fst (sample_wavelength core wavelength_sample)\<rparr>,
           mask_spectrum
             (map (\<lambda>w. Finite (w * (pi * (radius (m_bsphere self))\<^sup>2))) wav_weight)
             (MTS_MASK_ARGUMENT core active0)) \<and>
   (center (m_bsphere self) = (0, 0, 0) \<and> radius (m_bsphere self) = 1 \<and>
    call_direction core self time active0 = (0, 0, - 1) \<and> offset = (0, 0) \<longrightarrow>
      ray_target = (0, 0, 0) \<and>
      sample_ray_impl core Target_None Origin_BoundingSphere self time wavelength_sample
        film_sample aperture_sample active0 =
        Some (\<lparr>ray_o = (0, 0, 1), ray_d = (0, 0, - 1), ray_time = time,
               ray_wavelengths = fst (sample_wavelength core wavelength_sample)\<rparr>,
              mask_spectrum (map (\<lambda>w. Finite (w * pi)) wav_weight)
                (MTS_MASK_ARGUMENT core active0)))"
proof -
  have zero: "transform_affine T (0, 0, 0) = (0, 0, 0)" for T
    by (cases T) auto
  have t: "call_target core Target_None self time wavelength_sample aperture_sample active0 =
     Some (ray_target,
           map (\<lambda>w. Finite (w * (pi * (radius (m_bsphere self))\<^sup>2))) wav_weight)"
    using assms by (simp add: call_target_def sample_target_def Let_def sqr_def power2_eq_square)
  have w: "map_option snd
     (call_target core Target_None self time wavelength_sample aperture_sample' active0) =
     Some (map (\<lambda>w. Finite (w * (pi * (radius (m_bsphere self))\<^sup>2))) wav_weight)"
    using wav by (simp add: call_target_def sample_target_def Let_def sqr_def power2_eq_square)
  have r: "sample_ray_impl core Target_None Origin_BoundingSphere self time wavelength_sample
     film_sample aperture_sample active0 =
     Some (\<lparr>ray_o = vsub ray_target
                      (vscale (call_direction core self time active0) (radius (m_bsphere self))),
            ray_d = call_direction core self time active0,
            ray_time = time,
            ray_wavelengths = fst (sample_wavelength core wavelength_sample)\<rparr>,
           mask_spectrum
             (map (\<lambda>w. Finite (w * (pi * (radius (m_bsphere self))\<^sup>2))) wav_weight)
             (MTS_MASK_ARGUMENT core active0))"
    by (simp add: sample_ray_impl_locals t sample_origin_def)
  have s: "ray_target = (0, 0, 0)"
    if "center (m_bsphere self) = (0, 0, 0)" and "offset = (0, 0)"
    using that tgt by (simp add: zero)
  show ?thesis
    using t w r s by auto
qed

theorem none_target_sample_witness:
  "(0, 0) = square_to_uniform_disk_concentric example_core (1 / 2, 1 / 2) \<and>
   center (m_bsphere down_sensor) = (0, 0, 0) \<and> radius (m_bsphere down_sensor) = 1 \<and>
   call_direction example_core down_sensor 0 True = (0, 0, - 1) \<and>
   call_target example_core Target_None down_sensor 0 0 (1 / 2, 1 / 2) True =
     Some ((0, 0, 0), [Finite pi, Finite (2 * pi)]) \<and>
   sample_ray_impl example_core Target_None Origin_BoundingSphere down_sensor 0 0 (0, 0)
     (1 / 2, 1 / 2) True =
     Some (\<lparr>ray_o = (0, 0, 1), ray_d = (0, 0, - 1), ray_time = 0,
            ray_wavelengths = [550, 600]\<rparr>,
           [Finite pi, Finite (2 * pi)])"
proof -
  have off: "(0, 0) = square_to_uniform_disk_concentric example_core (1 / 2, 1 / 2)"
    by (simp add: example_defs)
  have wav: "[1, 2] = snd (sample_wavelength example_core 0)"
    by (simp add: example_defs)
  have tgt: "(0, 0, 0) =
               vadd (center (m_bsphere down_sensor))
                 (vscale (transform_affine (call_trafo example_core down_sensor 0 True)
                            (fst (0 :: real, 0 :: real), snd (0 :: real, 0 :: real), 0))
                    (radius (m_bsphere down_sensor)))"
    by (simp add: call_defs example_defs)
  have dir: "call_direction example_core down_sensor 0 True = (0, 0, - 1)"
    by (simp add: call_defs example_defs)
  show ?thesis
    using off dir none_target_sample [OF off wav tgt, of "(1 / 2, 1 / 2)" "(0, 0)"]
    by (simp add: example_defs mask_spectrum_def)
qed


subsection \<open>A shape as origin\<close>

text \<open>
  C3. With a shape as origin strategy, a call whose probe ray (from the target, against
  the ray direction) has no valid intersection with the origin shape returns a result
  (no error), its weight zero in every channel, and the mask after the origin step is
  false; so does the public \<open>sample_ray\<close>. In a packet every lane is the call on its
  own arguments: the lane of the miss has the zero weight, the other lanes keep theirs.
\<close>

theorem shape_origin_miss_zero_weight:
  assumes shape: "m_ray_origin_shape self = Some shape"
      and tgt: "call_target core TargetType self time wavelength_sample aperture_sample active0 =
                  Some (ray_target, ray_weight)"
      and miss: "\<not> is_valid (ray_intersect shape
                    (probe_ray ray_target (call_direction core self time active0) time)
                    Minimal (MTS_MASK_ARGUMENT core active0))"
  shows
  "map_option snd
     (call_origin core TargetType Origin_Shape self time wavelength_sample aperture_sample active0) =
     Some False \<and>
   (\<exists>ray. sample_ray_impl core TargetType Origin_Shape self time wavelength_sample film_sample
             aperture_sample active0 = Some (ray, zero_spectrum ray_weight)) \<and>
   (active0 = MTS_MASKED_FUNCTION core active1 \<longrightarrow>
    (\<exists>ray. sample_ray core TargetType Origin_Shape self time wavelength_sample film_sample
              aperture_sample active1 = Some (ray, zero_spectrum ray_weight))) \<and>
   (\<forall>i < length lanes.
      sample_ray_impl_packet core TargetType Origin_Shape self lanes ! i =
        sample_ray_impl_lane core TargetType Origin_Shape self (lanes ! i) \<and>
      (lanes ! i = (time, wavelength_sample, film_sample, aperture_sample, active0) \<longrightarrow>
       (\<exists>ray. sample_ray_impl_packet core TargetType Origin_Shape self lanes ! i =
                Some (ray, zero_spectrum ray_weight))))"
proof -
  have o: "map_option snd
     (call_origin core TargetType Origin_Shape self time wavelength_sample aperture_sample active0) =
     Some False"
    using miss by (simp add: call_origin_def tgt sample_origin_shape [OF shape])
  have r: "\<exists>ray. sample_ray_impl core TargetType Origin_Shape self time wavelength_sample film_sample
             aperture_sample active0 = Some (ray, zero_spectrum ray_weight)"
    using miss
    by (simp add: sample_ray_impl_locals tgt sample_origin_shape [OF shape] mask_spectrum_False)
  have p: "\<exists>ray. sample_ray core TargetType Origin_Shape self time wavelength_sample film_sample
              aperture_sample active1 = Some (ray, zero_spectrum ray_weight)"
    if "active0 = MTS_MASKED_FUNCTION core active1"
    using r that by (auto simp add: sample_ray_def mask_zero_spectrum)
  have l: "sample_ray_impl_packet core TargetType Origin_Shape self lanes ! i =
             sample_ray_impl_lane core TargetType Origin_Shape self (lanes ! i)"
    if "i < length lanes" for i
    using that by (simp add: sample_ray_impl_packet_def)
  have m: "\<exists>ray. sample_ray_impl_packet core TargetType Origin_Shape self lanes ! i =
                Some (ray, zero_spectrum ray_weight)"
    if "i < length lanes"
      and "lanes ! i = (time, wavelength_sample, film_sample, aperture_sample, active0)" for i
    using that r by (simp add: l sample_ray_impl_lane_def)
  show ?thesis
    using o r p l m by blast
qed

theorem shape_origin_miss_zero_weight_witness:
  "m_ray_origin_shape half_space_sensor = Some half_space_shape \<and>
   call_target example_core Target_None half_space_sensor 0 0 (0, 1 / 2) True =
     Some ((- 1, 0, 0), [Finite pi, Finite (2 * pi)]) \<and>
   \<not> is_valid (ray_intersect half_space_shape
        (probe_ray (- 1, 0, 0) (call_direction example_core half_space_sensor 0 True) 0)
        Minimal (MTS_MASK_ARGUMENT example_core True)) \<and>
   sample_ray_impl_packet example_core Target_None Origin_Shape half_space_sensor two_lanes =
     [Some (\<lparr>ray_o = (1, 0, - 1), ray_d = (0, 0, 1), ray_time = 0, ray_wavelengths = [550, 600]\<rparr>,
            [Finite pi, Finite (2 * pi)]),
      Some (\<lparr>ray_o = (0, 0, 0), ray_d = (0, 0, 1), ray_time = 0, ray_wavelengths = [550, 600]\<rparr>,
            [Finite 0, Finite 0])] \<and>
   sample_ray example_core Target_None Origin_Shape half_space_sensor 0 0 (0, 0) (0, 1 / 2) True =
     Some (\<lparr>ray_o = (0, 0, 0), ray_d = (0, 0, 1), ray_time = 0, ray_wavelengths = [550, 600]\<rparr>,
           [Finite 0, Finite 0])"
proof -
  have shape: "m_ray_origin_shape half_space_sensor = Some half_space_shape"
    by (simp add: example_defs)
  have tgt: "call_target example_core Target_None half_space_sensor 0 0 (0, 1 / 2) True =
               Some ((- 1, 0, 0), [Finite pi, Finite (2 * pi)])"
    by (simp add: call_defs example_defs sqr_def)
  have miss: "\<not> is_valid (ray_intersect half_space_shape
        (probe_ray (- 1, 0, 0) (call_direction example_core half_space_sensor 0 True) 0)
        Minimal (MTS_MASK_ARGUMENT example_core True))"
    by (simp add: call_defs example_defs)
  have tgt1: "call_target example_core Target_None half_space_sensor 0 0 (1, 1 / 2) True =
               Some ((1, 0, 0), [Finite pi, Finite (2 * pi)])"
    by (simp add: call_defs example_defs sqr_def)
  have lane1: "sample_ray_impl example_core Target_None Origin_Shape half_space_sensor 0 0 (0, 0)
                 (1, 1 / 2) True =
      Some (\<lparr>ray_o = (1, 0, - 1), ray_d = (0, 0, 1), ray_time = 0, ray_wavelengths = [550, 600]\<rparr>,
            [Finite pi, Finite (2 * pi)])"
    by (simp add: sample_ray_impl_locals tgt1 sample_origin_shape [OF shape])
       (simp add: call_defs example_defs)
  have lane2: "sample_ray_impl example_core Target_None Origin_Shape half_space_sensor 0 0 (0, 0)
                 (0, 1 / 2) True =
      Some (\<lparr>ray_o = (0, 0, 0), ray_d = (0, 0, 1), ray_time = 0, ray_wavelengths = [550, 600]\<rparr>,
            [Finite 0, Finite 0])"
    by (simp add: sample_ray_impl_locals tgt sample_origin_shape [OF shape])
       (simp add: call_defs example_defs)
  have packet: "sample_ray_impl_packet example_core Target_None Origin_Shape half_space_sensor
                  two_lanes =
     [Some (\<lparr>ray_o = (1, 0, - 1), ray_d = (0, 0, 1), ray_time = 0, ray_wavelengths = [550, 600]\<rparr>,
            [Finite pi, Finite (2 * pi)]),
      Some (\<lparr>ray_o = (0, 0, 0), ray_d = (0, 0, 1), ray_time = 0, ray_wavelengths = [550, 600]\<rparr>,
            [Finite 0, Finite 0])]"
    by (simp add: sample_ray_impl_packet_def sample_ray_impl_lane_def two_lanes_def lane1 lane2)
  have mf: "MTS_MASKED_FUNCTION example_core True = True"
    by (simp add: example_core_def)
  have pub: "sample_ray example_core Target_None Origin_Shape half_space_sensor 0 0 (0, 0)
               (0, 1 / 2) True =
     Some (\<lparr>ray_o = (0, 0, 0), ray_d = (0, 0, 1), ray_time = 0, ray_wavelengths = [550, 600]\<rparr>,
           [Finite 0, Finite 0])"
    by (simp add: sample_ray_def mf lane2 update_def mask_spectrum_def)
  show ?thesis
    using shape_origin_miss_zero_weight [OF shape tgt miss, of "(0, 0)" True two_lanes]
      shape tgt miss packet pub
    by simp
qed

text \<open>
  C9. On such a miss the origin of the returned ray is the position field of the
  interaction record that the intersection routine returned, whatever that is; the
  direction, time and wavelengths are those of any call. The ray does not depend on
  the validity at all: an origin shape that reports the same position returns the same
  ray. The miss shows in the zero weight only.
\<close>

theorem shape_origin_miss_position:
  assumes shape: "m_ray_origin_shape self = Some shape"
      and tgt: "call_target core TargetType self time wavelength_sample aperture_sample active0 =
                  Some (ray_target, ray_weight)"
      and si: "si = ray_intersect shape
                      (probe_ray ray_target (call_direction core self time active0) time)
                      Minimal (MTS_MASK_ARGUMENT core active0)"
      and miss: "\<not> is_valid si"
  shows
  "sample_ray_impl core TargetType Origin_Shape self time wavelength_sample film_sample
     aperture_sample active0 =
     Some (\<lparr>ray_o = si_p si, ray_d = call_direction core self time active0, ray_time = time,
            ray_wavelengths = fst (sample_wavelength core wavelength_sample)\<rparr>,
           zero_spectrum ray_weight) \<and>
   (si_p (ray_intersect shape'
            (probe_ray ray_target (call_direction core self time active0) time)
            Minimal (MTS_MASK_ARGUMENT core active0)) = si_p si \<longrightarrow>
    map_option fst
      (sample_ray_impl core TargetType Origin_Shape (self\<lparr>m_ray_origin_shape := Some shape'\<rparr>)
         time wavelength_sample film_sample aperture_sample active0) =
    map_option fst
      (sample_ray_impl core TargetType Origin_Shape self time wavelength_sample film_sample
         aperture_sample active0))"
proof -
  have a: "sample_ray_impl core TargetType Origin_Shape self time wavelength_sample film_sample
     aperture_sample active0 =
     Some (\<lparr>ray_o = si_p si, ray_d = call_direction core self time active0, ray_time = time,
            ray_wavelengths = fst (sample_wavelength core wavelength_sample)\<rparr>,
           zero_spectrum ray_weight)"
    using miss si
    by (simp add: sample_ray_impl_locals tgt sample_origin_shape [OF shape] mask_spectrum_False)
  have d': "call_direction core (self\<lparr>m_ray_origin_shape := Some shape'\<rparr>) time active0 =
            call_direction core self time active0"
    by (simp add: call_direction_def call_trafo_def)
  have t': "call_target core TargetType (self\<lparr>m_ray_origin_shape := Some shape'\<rparr>) time
              wavelength_sample aperture_sample active0 = Some (ray_target, ray_weight)"
    using tgt
    by (cases TargetType)
       (simp_all add: call_target_def call_direction_def call_trafo_def sample_target_def)
  have s': "m_ray_origin_shape (self\<lparr>m_ray_origin_shape := Some shape'\<rparr>) = Some shape'"
    by simp
  have b: "map_option fst
      (sample_ray_impl core TargetType Origin_Shape (self\<lparr>m_ray_origin_shape := Some shape'\<rparr>)
         time wavelength_sample film_sample aperture_sample active0) =
    map_option fst
      (sample_ray_impl core TargetType Origin_Shape self time wavelength_sample film_sample
         aperture_sample active0)"
    if "si_p (ray_intersect shape'
            (probe_ray ray_target (call_direction core self time active0) time)
            Minimal (MTS_MASK_ARGUMENT core active0)) = si_p si"
    using that
    by (simp add: a) (simp add: sample_ray_impl_locals t' d' sample_origin_shape [OF s'])
  show ?thesis
    using a b by blast
qed

theorem shape_origin_miss_position_witness:
  "m_ray_origin_shape miss_sensor = Some miss_shape \<and>
   call_target example_core Target_Point miss_sensor 0 0 (1 / 4, 3 / 4) True =
     Some ((0, 0, 1 / 2), [Finite 1, Finite 2]) \<and>
   \<not> is_valid (ray_intersect miss_shape
        (probe_ray (0, 0, 1 / 2) (call_direction example_core miss_sensor 0 True) 0)
        Minimal (MTS_MASK_ARGUMENT example_core True)) \<and>
   sample_ray_impl example_core Target_Point Origin_Shape miss_sensor 0 0 (0, 0) (1 / 4, 3 / 4)
     True =
     Some (\<lparr>ray_o = (7, 8, 9), ray_d = (0, 0, - 1), ray_time = 0, ray_wavelengths = [550, 600]\<rparr>,
           [Finite 0, Finite 0])"
proof -
  have shape: "m_ray_origin_shape miss_sensor = Some miss_shape"
    by (simp add: example_defs)
  have tgt: "call_target example_core Target_Point miss_sensor 0 0 (1 / 4, 3 / 4) True =
     Some ((0, 0, 1 / 2), [Finite 1, Finite 2])"
    by (simp add: call_defs example_defs)
  have miss: "\<not> is_valid (ray_intersect miss_shape
        (probe_ray (0, 0, 1 / 2) (call_direction example_core miss_sensor 0 True) 0)
        Minimal (MTS_MASK_ARGUMENT example_core True))"
    by (simp add: call_defs example_defs)
  have p: "si_p (ray_intersect miss_shape (probe_ray (0, 0, 1 / 2) (0, 0, - 1) 0)
        Minimal (MTS_MASK_ARGUMENT example_core True)) = (7, 8, 9)"
    by (simp add: example_defs)
  have d: "call_direction example_core miss_sensor 0 True = (0, 0, - 1)"
    by (simp add: call_defs example_defs)
  have w: "fst (sample_wavelength example_core 0) = [550, 600]"
    by (simp add: example_defs)
  show ?thesis
    using shape tgt miss
      shape_origin_miss_position [OF shape tgt refl miss, of "(0, 0)" miss_shape]
    by (simp add: p d w zero_spectrum_def)
qed


subsection \<open>A shape as target\<close>

text \<open>
  C1, as the code has it. With a shape as target the weight of step 3.1 is, in each
  channel, the IEEE quotient of \<open>spectral weight * dot (- direction) normal\<close> by the
  density of the position sample, and the call returns it under the mask that the
  origin step leaves: the finite quotient on an active sample when the density is not
  0, zero on an inactive one. The division has no guard: for the density 0 the weight
  of an active sample is infinite (NaN where the numerator is 0) in each channel.
\<close>

theorem shape_target_weight:
  assumes shape: "m_ray_target_shape self = Some shape"
      and ps: "ps = sample_position shape time aperture_sample (MTS_MASK_ARGUMENT core active0)"
      and wav: "wav_weight = snd (sample_wavelength core wavelength_sample)"
      and num: "numerator = (\<lambda>w. w * dot (vneg (call_direction core self time active0)) (ps_n ps))"
      and org: "sample_origin Target_Shape OriginType self time (ps_p ps)
                  (call_direction core self time active0) (MTS_MASK_ARGUMENT core active0) =
                Some (origin, active')"
  shows
  "call_target core Target_Shape self time wavelength_sample aperture_sample active0 =
     Some (ps_p ps, map (\<lambda>w. fdiv (numerator w) (ps_pdf ps)) wav_weight) \<and>
   map_option snd
     (sample_ray_impl core Target_Shape OriginType self time wavelength_sample film_sample
        aperture_sample active0) =
     Some (mask_spectrum (map (\<lambda>w. fdiv (numerator w) (ps_pdf ps)) wav_weight) active') \<and>
   (active' \<and> ps_pdf ps \<noteq> 0 \<longrightarrow>
      map_option snd
        (sample_ray_impl core Target_Shape OriginType self time wavelength_sample film_sample
           aperture_sample active0) =
        Some (map (\<lambda>w. Finite (numerator w / ps_pdf ps)) wav_weight)) \<and>
   (active' \<and> ps_pdf ps = 0 \<longrightarrow>
      map_option snd
        (sample_ray_impl core Target_Shape OriginType self time wavelength_sample film_sample
           aperture_sample active0) =
        Some (map (\<lambda>w. if numerator w = 0 then NaN else Infinite) wav_weight)) \<and>
   (\<not> active' \<longrightarrow>
      map_option snd
        (sample_ray_impl core Target_Shape OriginType self time wavelength_sample film_sample
           aperture_sample active0) =
        Some (zero_spectrum wav_weight))"
proof -
  have t: "call_target core Target_Shape self time wavelength_sample aperture_sample active0 =
     Some (ps_p ps, map (\<lambda>w. fdiv (numerator w) (ps_pdf ps)) wav_weight)"
    using shape ps wav num
    by (simp add: call_target_def sample_target_def SurfaceInteraction3f_of_def Let_def)
  have r: "map_option snd
     (sample_ray_impl core Target_Shape OriginType self time wavelength_sample film_sample
        aperture_sample active0) =
     Some (mask_spectrum (map (\<lambda>w. fdiv (numerator w) (ps_pdf ps)) wav_weight) active')"
    by (simp add: sample_ray_impl_locals t org)
  show ?thesis
    using t r
    by (auto simp add: mask_spectrum_True mask_spectrum_False fdiv_nonzero fdiv_zero
          zero_spectrum_def)
qed

text \<open>
  The claim as stated fails: a target shape that reports the density 0 gives the weight
  infinity in both channels, not 0.
\<close>

theorem shape_target_weight_counterexample:
  "ps_pdf (sample_position zero_pdf_shape 0 (1 / 4, 3 / 4) True) = 0 \<and>
   map_option snd
     (sample_ray_impl example_core Target_Shape Origin_BoundingSphere zero_pdf_sensor 0 0
        (0, 0) (1 / 4, 3 / 4) True) =
     Some [Infinite, Infinite] \<and>
   map_option snd
     (sample_ray_impl example_core Target_Shape Origin_BoundingSphere zero_pdf_sensor 0 0
        (0, 0) (1 / 4, 3 / 4) True) \<noteq>
     Some [Finite 0, Finite 0]"
  by (simp add: call_defs example_defs shape_defs fdiv_def)

theorem shape_target_weight_witness:
  "m_ray_target_shape patch_sensor = Some patch_shape \<and>
   sample_origin Target_Shape Origin_BoundingSphere patch_sensor 0 (1 / 4, 3 / 4, 0)
     (call_direction example_core patch_sensor 0 True) True = Some ((1 / 4, 3 / 4, 2), True) \<and>
   call_target example_core Target_Shape patch_sensor 0 0 (1 / 4, 3 / 4) True =
     Some ((1 / 4, 3 / 4, 0), [Finite 4, Finite 8]) \<and>
   map_option snd
     (sample_ray_impl example_core Target_Shape Origin_BoundingSphere patch_sensor 0 0 (0, 0)
        (1 / 4, 3 / 4) True) = Some [Finite 4, Finite 8] \<and>
   m_ray_target_shape zero_pdf_sensor = Some zero_pdf_shape \<and>
   map_option snd
     (sample_ray_impl example_core Target_Shape Origin_BoundingSphere zero_pdf_sensor 0 0 (0, 0)
        (1 / 4, 3 / 4) True) = Some [Infinite, Infinite]"
proof -
  have shape: "m_ray_target_shape patch_sensor = Some patch_shape"
    by (simp add: example_defs shape_defs)
  have org: "sample_origin Target_Shape Origin_BoundingSphere patch_sensor 0
               (ps_p (sample_position patch_shape 0 (1 / 4, 3 / 4)
                        (MTS_MASK_ARGUMENT example_core True)))
               (call_direction example_core patch_sensor 0 True)
               (MTS_MASK_ARGUMENT example_core True) = Some ((1 / 4, 3 / 4, 2), True)"
    by (simp add: call_defs example_defs shape_defs)
  have shape0: "m_ray_target_shape zero_pdf_sensor = Some zero_pdf_shape"
    by (simp add: example_defs shape_defs)
  have org0: "sample_origin Target_Shape Origin_BoundingSphere zero_pdf_sensor 0
               (ps_p (sample_position zero_pdf_shape 0 (1 / 4, 3 / 4)
                        (MTS_MASK_ARGUMENT example_core True)))
               (call_direction example_core zero_pdf_sensor 0 True)
               (MTS_MASK_ARGUMENT example_core True) = Some ((0, 0, 2), True)"
    by (simp add: call_defs example_defs shape_defs)
  have d: "call_direction example_core patch_sensor 0 True = (0, 0, - 1)"
          "call_direction example_core zero_pdf_sensor 0 True = (0, 0, - 1)"
    by (simp_all add: call_defs example_defs shape_defs)
  have e: "sample_position patch_shape 0 (1 / 4, 3 / 4) True =
             \<lparr>ps_p = (1 / 4, 3 / 4, 0), ps_n = (0, 0, 1), ps_pdf = 1 / 4\<rparr>"
          "sample_position zero_pdf_shape 0 (1 / 4, 3 / 4) True =
             \<lparr>ps_p = (0, 0, 0), ps_n = (0, 0, 1), ps_pdf = 0\<rparr>"
          "snd (sample_wavelength example_core 0) = [1, 2]"
          "MTS_MASK_ARGUMENT example_core True = True"
    by (simp_all add: example_defs shape_defs)
  show ?thesis
    using shape shape0
      shape_target_weight [OF shape refl refl refl org, of 0 "(0, 0)"]
      shape_target_weight [OF shape0 refl refl refl org0, of 0 "(0, 0)"]
      org
    by (simp add: d e fdiv_def)
qed

subsection \<open>The bounding sphere as origin\<close>

text \<open>
  C2. The claim does not hold of the code. With the bounding sphere as origin strategy
  and a point target, line 325 sets the origin to \<open>target - direction * 2 * r\<close>, which
  is inside the sphere for a target that lies beyond the sphere along the ray
  direction. For the unit sphere as bounds, the rigid transform of the direction
  \<open>(0, 0, -1)\<close> and the point target \<open>(0, 0, -2)\<close> the call returns the centre of the
  sphere as origin, at the distance 0 from the centre, below the radius 1. Every
  number of this call is a small integer: the call computes the same in single
  precision.
\<close>

theorem far_point_target_origin_at_centre:
  "rigid (call_trafo example_core far_point_sensor 0 True) \<and>
   m_ray_target_point far_point_sensor = (0, 0, - 2) \<and>
   center (m_bsphere far_point_sensor) = (0, 0, 0) \<and>
   radius (m_bsphere far_point_sensor) = 1 \<and>
   sample_ray_impl example_core Target_Point Origin_BoundingSphere far_point_sensor 0 0
     (0, 0) (0, 0) True =
     Some (\<lparr>ray_o = (0, 0, 0), ray_d = (0, 0, - 1), ray_time = 0, ray_wavelengths = [550, 600]\<rparr>,
           [Finite 1, Finite 2]) \<and>
   distance (0, 0, 0) (center (m_bsphere far_point_sensor)) = 0 \<and>
   distance (0, 0, 0) (center (m_bsphere far_point_sensor)) < radius (m_bsphere far_point_sensor)"
  by (simp add: call_defs example_defs far_point_sensor_def rigid_def distance_def)

end
